theory Spec2Isabelle
  imports Main "HOL-Library.Word"
begin

section \<open>The lnd backend of lntop: network/backend/lnd/lnd.go\<close>

text \<open>
  The file under verification is the pooled client facade of the lnd backend. Every
  method of \<open>Backend\<close> is embedded as a function that returns its Go result together
  with the list of effects it performed, in program order: logger calls, the pool's
  \<open>Get\<close>, the connection's \<open>Close\<close>, the calls made through the gRPC stub, receives on
  the invoice stream and sends on the output channel.

  What lnd.go only consumes is a parameter of the model: the answers of the pool and of
  the remote node (the \<open>context.Context\<close> argument only selects those answers and is
  folded into them), the clock, and the translators of the package that live in another
  file.
\<close>

subsection \<open>Errors\<close>

text \<open>
  A Go \<open>error\<close> value. \<open>Failure msg\<close> is an error made outside this file (by the pool,
  by gRPC or by the node), identified by its message. \<open>WithStack site err\<close> is the value
  of \<open>errors.WithStack(err)\<close> of github.com/pkg/errors: \<open>err\<close> together with the stack
  of the goroutine at the call. The first frame of that stack is the method that called
  \<open>WithStack\<close>; the model keeps this frame, by method name. The wrapper has no message of
  its own: its \<open>Error()\<close> is the wrapped error's, and \<open>errors.Cause\<close> unwraps it.
\<close>

datatype error = Failure string | WithStack string error

fun Error :: "error \<Rightarrow> string" where
  "Error (Failure msg) = msg"
| "Error (WithStack site err) = Error err"

fun Cause :: "error \<Rightarrow> error" where
  "Cause (Failure msg) = Failure msg"
| "Cause (WithStack site err) = Cause err"

subsection \<open>Wire messages and domain models\<close>

type_synonym int64 = "64 word"

text \<open>\<open>lndDefaultInvoiceExpiry\<close>, lnd.go line 20.\<close>

definition lndDefaultInvoiceExpiry :: int64 where
  "lndDefaultInvoiceExpiry = 3600"

text \<open>
  The request messages, with the fields that lnd.go sets. A Go composite literal leaves
  every other field of the message at its zero value, so the message sent is determined
  by the fields listed here. \<open>WalletBalanceRequest\<close>, \<open>ChannelBalanceRequest\<close> and
  \<open>InvoiceSubscription\<close> are built empty.
\<close>

type_synonym WalletBalanceRequest = unit
type_synonym ChannelBalanceRequest = unit
type_synonym InvoiceSubscription = unit

record ListChannelsRequest =
  ActiveOnly :: bool
  InactiveOnly :: bool
  PublicOnly :: bool
  PrivateOnly :: bool

record lnrpc_Invoice =
  Value :: int64
  Memo :: string
  CreationDate :: int64
  Expiry :: int64

record PaymentHash =
  RHashStr :: string

record SendRequest =
  PaymentRequest :: string

record PayReqString =
  PayReq :: string

datatype request =
    Req_WalletBalance WalletBalanceRequest
  | Req_ChannelBalance ChannelBalanceRequest
  | Req_ListChannels ListChannelsRequest
  | Req_AddInvoice lnrpc_Invoice
  | Req_LookupInvoice PaymentHash
  | Req_SendPaymentSync SendRequest
  | Req_DecodePayReq PayReqString
  | Req_SubscribeInvoices InvoiceSubscription

text \<open>
  \<open>models.PayReq\<close>: lnd.go reads its fields \<open>Destination\<close>, \<open>Amount\<close> and \<open>String\<close>.
\<close>

record PayReq =
  Destination :: string
  Amount :: int64
  String' :: string

text \<open>
  The two response messages whose content a translator merges with request-side
  fields. The schema belongs to the node (package lnrpc): \<open>AddInvoiceResponse\<close> carries
  the payment hash, the encoded payment request and the add index and has no field for
  the amount, the memo or the expiry; \<open>SendResponse\<close> carries the payment error and the
  preimage and has no field for the destination or the amount.
\<close>

record AddInvoiceResponse =
  resp_RHash :: string
  resp_PaymentRequest :: string
  resp_AddIndex :: int64

record SendResponse =
  resp_PaymentError :: string
  resp_PaymentPreimage :: string

record Invoice =
  Invoice_Index :: int64
  Invoice_Amount :: int64
  Invoice_Description :: string
  Invoice_RHash :: string
  Invoice_PaymentRequest :: string
  Invoice_CreationDate :: int64
  Invoice_Expiry :: int64

record Payment =
  Payment_PayReq :: PayReq
  Payment_PaymentError :: string
  Payment_PaymentPreimage :: string

text \<open>
  Modelled from the spec: \<open>addInvoiceProtoToInvoice\<close>, called at lnd.go line 183 and
  defined in another file of the package. The spec (section 3) has the model built from
  the wire response and merged with the fields of the original request that the response
  omits: creation time, expiry, memo, and (section 8) the amount.
\<close>

definition addInvoiceProtoToInvoice :: "lnrpc_Invoice \<Rightarrow> AddInvoiceResponse \<Rightarrow> Invoice" where
  "addInvoiceProtoToInvoice req resp =
     \<lparr> Invoice_Index = resp_AddIndex resp,
       Invoice_Amount = Value req,
       Invoice_Description = Memo req,
       Invoice_RHash = resp_RHash resp,
       Invoice_PaymentRequest = resp_PaymentRequest resp,
       Invoice_CreationDate = CreationDate req,
       Invoice_Expiry = Expiry req \<rparr>"

text \<open>
  Modelled from the spec: \<open>sendPaymentProtoToPayment\<close>, called at lnd.go line 234 and
  defined in another file of the package. The spec (section 4.3) has the \<open>Payment\<close>
  reconstructed by combining the original request object with the wire response, so that
  what the node does not echo is kept from the caller's input.
\<close>

definition sendPaymentProtoToPayment :: "PayReq \<Rightarrow> SendResponse \<Rightarrow> Payment" where
  "sendPaymentProtoToPayment payreq resp =
     \<lparr> Payment_PayReq = payreq,
       Payment_PaymentError = resp_PaymentError resp,
       Payment_PaymentPreimage = resp_PaymentPreimage resp \<rparr>"

subsection \<open>Package options\<close>

text \<open>
  lnd.go reads the fields \<open>Active\<close>, \<open>Inactive\<close>, \<open>Public\<close> and \<open>Private\<close> of the options
  record (lines 136 to 139). An \<open>options.Channel\<close> is one filter option, applied to the
  record.
\<close>

record ChannelOptions =
  Active :: bool
  Inactive :: bool
  Public :: bool
  Private :: bool

type_synonym Channel = "ChannelOptions \<Rightarrow> ChannelOptions"

text \<open>
  Modelled from the spec: the four filter options, defined in package \<open>options\<close> of the
  repository. The spec (section 4.3) names them active-only, inactive-only,
  public-only and private-only.
\<close>

definition active_only :: Channel where
  "active_only opts = opts\<lparr>Active := True\<rparr>"

definition inactive_only :: Channel where
  "inactive_only opts = opts\<lparr>Inactive := True\<rparr>"

definition public_only :: Channel where
  "public_only opts = opts\<lparr>Public := True\<rparr>"

definition private_only :: Channel where
  "private_only opts = opts\<lparr>Private := True\<rparr>"

text \<open>
  Modelled from the spec: \<open>options.NewChannelOptions\<close>, called at lnd.go line 134 and
  defined in package \<open>options\<close> of the repository. The spec (section 4.3) has the
  options merged into a single record by defaults-then-override composition,
  and (section 8) the defaults are the four flags unset.
\<close>

definition NewChannelOptions :: "Channel list \<Rightarrow> ChannelOptions" where
  "NewChannelOptions opt =
     foldl (\<lambda>opts f. f opts)
       \<lparr> Active = False, Inactive = False, Public = False, Private = False \<rparr> opt"

subsection \<open>Collaborators\<close>

text \<open>
  \<open>pool.Conn\<close>: a leased connection, with the target it reports. \<open>pool.Pool\<close>: the
  answer of \<open>Get\<close> for the call at hand.
\<close>

record Conn =
  Target :: string

record Pool =
  Get :: "error + Conn"

text \<open>
  \<open>lnrpc.LightningClient\<close>: the stub, one answer per method and request. \<open>'w\<close> stands
  for the response messages that lnd.go hands to a translator without reading them.
  The invoice stream is the sequence of the answers of its \<open>Recv\<close>, by position.
\<close>

type_synonym SubscribeInvoicesClient = "nat \<Rightarrow> error + lnrpc_Invoice"

record 'w LightningClient =
  WalletBalance :: "WalletBalanceRequest \<Rightarrow> error + 'w"
  ChannelBalance :: "ChannelBalanceRequest \<Rightarrow> error + 'w"
  ListChannels_rpc :: "ListChannelsRequest \<Rightarrow> error + 'w"
  AddInvoice :: "lnrpc_Invoice \<Rightarrow> error + AddInvoiceResponse"
  LookupInvoice :: "PaymentHash \<Rightarrow> error + lnrpc_Invoice"
  SendPaymentSync :: "SendRequest \<Rightarrow> error + SendResponse"
  DecodePayReq_rpc :: "PayReqString \<Rightarrow> error + 'w"
  SubscribeInvoices :: "InvoiceSubscription \<Rightarrow> error + SubscribeInvoicesClient"

text \<open>
  What the rest of the program and the libraries provide: the stub that
  \<open>lnrpc.NewLightningClient\<close> builds on a connection, \<open>time.Now().Unix()\<close>, and the
  translators of the package that lnd.go calls and that no claim constrains. \<open>'m\<close>
  stands for the domain models that lnd.go only passes on.
\<close>

record ('w, 'm) world =
  NewLightningClient :: "Conn \<Rightarrow> 'w LightningClient"
  Now_Unix :: int64
  protoToWalletBalance :: "'w \<Rightarrow> 'm"
  protoToChannelBalance :: "'w \<Rightarrow> 'm"
  listChannelsProtoToChannels :: "'w \<Rightarrow> 'm list"
  lookupInvoiceProtoToInvoice :: "lnrpc_Invoice \<Rightarrow> Invoice"
  payreqProtoToPayReq :: "'w \<Rightarrow> string \<Rightarrow> PayReq"

subsection \<open>Effects\<close>

datatype level = Debug | Info

text \<open>
  One effect of a method. A logger call is recorded with its level and message (its
  structured fields are not read by anything). \<open>PoolGet\<close> is one call of \<open>pool.Get\<close>,
  \<open>ConnClose c\<close> one call of \<open>Close\<close> on the leased connection \<open>c\<close>, \<open>Rpc r\<close> one call
  through the stub, \<open>StreamRecv\<close> one \<open>Recv\<close> on the invoice stream, \<open>ChanSend i\<close> one
  completed send on the output channel.
\<close>

datatype event =
    Log level string
  | PoolGet
  | ConnClose Conn
  | Rpc request
  | StreamRecv
  | ChanSend Invoice

fun gets :: "event list \<Rightarrow> nat" where
  "gets [] = 0"
| "gets (PoolGet # t) = Suc (gets t)"
| "gets (e # t) = gets t"

fun closes :: "event list \<Rightarrow> Conn list" where
  "closes [] = []"
| "closes (ConnClose c # t) = c # closes t"
| "closes (e # t) = closes t"

fun rpcs :: "event list \<Rightarrow> request list" where
  "rpcs [] = []"
| "rpcs (Rpc r # t) = r # rpcs t"
| "rpcs (e # t) = rpcs t"

fun sends :: "event list \<Rightarrow> Invoice list" where
  "sends [] = []"
| "sends (ChanSend i # t) = i # sends t"
| "sends (e # t) = sends t"

subsection \<open>Client and Backend\<close>

record 'w Client =
  LightningClient :: "'w LightningClient"
  conn :: Conn

text \<open>\<open>Client.Close\<close>, lnd.go lines 28 to 30.\<close>

definition Close :: "'w Client \<Rightarrow> event list" where
  "Close c = [ConnClose (conn c)]"

text \<open>
  \<open>defer clt.Close()\<close>: the body runs, then the deferred call, then the method returns
  the body's result (the error that \<open>Close\<close> returns is dropped).
\<close>

definition defer_Close :: "'w Client \<Rightarrow> 'a \<times> event list \<Rightarrow> 'a \<times> event list" where
  "defer_Close clt body = (fst body, snd body @ Close clt)"

record Network =
  ID :: string

record Backend =
  cfg :: Network
  pool :: Pool

definition NodeName :: "Backend \<Rightarrow> string" where
  "NodeName l = ID (cfg l)"

text \<open>\<open>Backend.Client\<close>, lnd.go lines 63 to 75.\<close>

definition Backend_Client :: "('w, 'm) world \<Rightarrow> Backend \<Rightarrow> (error + 'w Client) \<times> event list" where
  "Backend_Client w l =
     (case Get (pool l) of
        Inl err \<Rightarrow> (Inl err, [PoolGet])
      | Inr c \<Rightarrow>
          (Inr \<lparr> LightningClient = NewLightningClient w c, conn = c \<rparr>,
           [PoolGet, Log Debug ''Client connection retrieved'']))"

subsection \<open>Unary operations\<close>

text \<open>\<open>Backend.GetWalletBalance\<close>, lnd.go lines 81 to 101.\<close>

definition GetWalletBalance :: "('w, 'm) world \<Rightarrow> Backend \<Rightarrow> (error + 'm) \<times> event list" where
  "GetWalletBalance w l =
     (let t0 = [Log Debug ''Retrieve wallet balance...''] in
      case Backend_Client w l of
        (Inl err, t1) \<Rightarrow> (Inl err, t0 @ t1)
      | (Inr clt, t1) \<Rightarrow>
          defer_Close clt
            (let req = ();
                 t2 = t0 @ t1 @ [Rpc (Req_WalletBalance req)] in
             case WalletBalance (LightningClient clt) req of
               Inl err \<Rightarrow> (Inl (WithStack ''Backend.GetWalletBalance'' err), t2)
             | Inr resp \<Rightarrow>
                 (let balance = protoToWalletBalance w resp in
                  (Inr balance, t2 @ [Log Debug ''Wallet balance retrieved'']))))"

text \<open>\<open>Backend.GetChannelBalance\<close>, lnd.go lines 103 to 123.\<close>

definition GetChannelBalance :: "('w, 'm) world \<Rightarrow> Backend \<Rightarrow> (error + 'm) \<times> event list" where
  "GetChannelBalance w l =
     (let t0 = [Log Debug ''Retrieve channel balance...''] in
      case Backend_Client w l of
        (Inl err, t1) \<Rightarrow> (Inl err, t0 @ t1)
      | (Inr clt, t1) \<Rightarrow>
          defer_Close clt
            (let req = ();
                 t2 = t0 @ t1 @ [Rpc (Req_ChannelBalance req)] in
             case ChannelBalance (LightningClient clt) req of
               Inl err \<Rightarrow> (Inl (WithStack ''Backend.GetChannelBalance'' err), t2)
             | Inr resp \<Rightarrow>
                 (let balance = protoToChannelBalance w resp in
                  (Inr balance, t2 @ [Log Debug ''Channel balance retrieved'']))))"

text \<open>\<open>Backend.ListChannels\<close>, lnd.go lines 125 to 158.\<close>

definition ListChannels :: "('w, 'm) world \<Rightarrow> Backend \<Rightarrow> Channel list \<Rightarrow> (error + 'm list) \<times> event list" where
  "ListChannels w l opt =
     (let t0 = [Log Debug ''List channels''] in
      case Backend_Client w l of
        (Inl err, t1) \<Rightarrow> (Inl err, t0 @ t1)
      | (Inr clt, t1) \<Rightarrow>
          defer_Close clt
            (let opts = NewChannelOptions opt;
                 req = \<lparr> ActiveOnly = Active opts,
                         InactiveOnly = Inactive opts,
                         PublicOnly = Public opts,
                         PrivateOnly = Private opts \<rparr>;
                 t2 = t0 @ t1 @ [Rpc (Req_ListChannels req)] in
             case ListChannels_rpc (LightningClient clt) req of
               Inl err \<Rightarrow> (Inl (WithStack ''Backend.ListChannels'' err), t2)
             | Inr resp \<Rightarrow>
                 (let channels = listChannelsProtoToChannels w resp in
                  (Inr channels, t2 @ [Log Debug ''Channels retrieved'']))))"

text \<open>\<open>Backend.CreateInvoice\<close>, lnd.go lines 160 to 188.\<close>

definition CreateInvoice :: "('w, 'm) world \<Rightarrow> Backend \<Rightarrow> int64 \<Rightarrow> string \<Rightarrow> (error + Invoice) \<times> event list" where
  "CreateInvoice w l amount desc =
     (let t0 = [Log Debug ''Create invoice...''] in
      case Backend_Client w l of
        (Inl err, t1) \<Rightarrow> (Inl err, t0 @ t1)
      | (Inr clt, t1) \<Rightarrow>
          defer_Close clt
            (let req = \<lparr> Value = amount,
                         Memo = desc,
                         CreationDate = Now_Unix w,
                         Expiry = lndDefaultInvoiceExpiry \<rparr>;
                 t2 = t0 @ t1 @ [Rpc (Req_AddInvoice req)] in
             case AddInvoice (LightningClient clt) req of
               Inl err \<Rightarrow> (Inl (WithStack ''Backend.CreateInvoice'' err), t2)
             | Inr resp \<Rightarrow>
                 (let invoice = addInvoiceProtoToInvoice req resp in
                  (Inr invoice, t2 @ [Log Debug ''Invoice retrieved'']))))"

text \<open>\<open>Backend.GetInvoice\<close>, lnd.go lines 190 to 213.\<close>

definition GetInvoice :: "('w, 'm) world \<Rightarrow> Backend \<Rightarrow> string \<Rightarrow> (error + Invoice) \<times> event list" where
  "GetInvoice w l RHash =
     (let t0 = [Log Debug ''Retrieve invoice...''] in
      case Backend_Client w l of
        (Inl err, t1) \<Rightarrow> (Inl err, t0 @ t1)
      | (Inr clt, t1) \<Rightarrow>
          defer_Close clt
            (let req = \<lparr> RHashStr = RHash \<rparr>;
                 t2 = t0 @ t1 @ [Rpc (Req_LookupInvoice req)] in
             case LookupInvoice (LightningClient clt) req of
               Inl err \<Rightarrow> (Inl (WithStack ''Backend.GetInvoice'' err), t2)
             | Inr resp \<Rightarrow>
                 (let invoice = lookupInvoiceProtoToInvoice w resp in
                  (Inr invoice, t2 @ [Log Debug ''Invoice retrieved'']))))"

text \<open>
  \<open>Backend.SendPayment\<close>, lnd.go lines 215 to 239. \<open>payreq\<close> is a pointer: \<open>None\<close> is
  the nil pointer, whose dereference at line 217 panics before anything else happens.
\<close>

datatype 'a outcome = Returns 'a | Panics

definition SendPayment :: "('w, 'm) world \<Rightarrow> Backend \<Rightarrow> PayReq option \<Rightarrow> (error + Payment) outcome \<times> event list" where
  "SendPayment w l payreq =
     (case payreq of
        None \<Rightarrow> (Panics, [])
      | Some p \<Rightarrow>
          (let t0 = [Log Debug ''Send payment...''] in
           case Backend_Client w l of
             (Inl err, t1) \<Rightarrow> (Returns (Inl err), t0 @ t1)
           | (Inr clt, t1) \<Rightarrow>
               defer_Close clt
                 (let req = \<lparr> PaymentRequest = String' p \<rparr>;
                      t2 = t0 @ t1 @ [Rpc (Req_SendPaymentSync req)] in
                  case SendPaymentSync (LightningClient clt) req of
                    Inl err \<Rightarrow> (Returns (Inl (WithStack ''Backend.SendPayment'' err)), t2)
                  | Inr resp \<Rightarrow>
                      (let payment = sendPaymentProtoToPayment p resp in
                       (Returns (Inr payment), t2 @ [Log Debug ''Payment paid''])))))"

text \<open>\<open>Backend.DecodePayReq\<close>, lnd.go lines 241 to 255.\<close>

definition DecodePayReq :: "('w, 'm) world \<Rightarrow> Backend \<Rightarrow> string \<Rightarrow> (error + PayReq) \<times> event list" where
  "DecodePayReq w l payreq =
     (let t0 = [Log Info ''decode payreq''] in
      case Backend_Client w l of
        (Inl err, t1) \<Rightarrow> (Inl err, t0 @ t1)
      | (Inr clt, t1) \<Rightarrow>
          defer_Close clt
            (let req = \<lparr> PayReq = payreq \<rparr>;
                 t2 = t0 @ t1 @ [Rpc (Req_DecodePayReq req)] in
             case DecodePayReq_rpc (LightningClient clt) req of
               Inl err \<Rightarrow> (Inl (WithStack ''Backend.DecodePayReq'' err), t2)
             | Inr resp \<Rightarrow> (Inr (payreqProtoToPayReq w resp payreq), t2)))"

subsection \<open>The invoice subscription\<close>

text \<open>
  The output channel is a Go channel, and a send on it blocks until there is room.
  The model gives the channel the number of sends that can still complete (buffer slots
  and receives by the consumer): \<open>None\<close> when the consumer never stops receiving,
  \<open>Some n\<close> when \<open>n\<close> more sends complete and the next one blocks for ever (\<open>Some 0\<close> is
  also the nil channel).
\<close>

type_synonym chan = "nat option"

fun chan_send :: "chan \<Rightarrow> chan option" where
  "chan_send None = Some None"
| "chan_send (Some 0) = None"
| "chan_send (Some (Suc n)) = Some (Some n)"

text \<open>
  How a run of \<open>SubscribeInvoice\<close> stands: it has returned an error, it is blocked for
  ever in a send, or it is still in its loop when the observation ends.
\<close>

datatype status = Returned error | Blocked | Running

text \<open>
  The loop of lnd.go lines 53 to 60, observed for at most \<open>fuel\<close> iterations, from
  position \<open>i\<close> of the stream.
\<close>

fun recv_loop :: "nat \<Rightarrow> ('w, 'm) world \<Rightarrow> SubscribeInvoicesClient \<Rightarrow> nat \<Rightarrow> chan \<Rightarrow> status \<times> event list" where
  "recv_loop 0 w cltInvoices i ch = (Running, [])"
| "recv_loop (Suc fuel) w cltInvoices i ch =
     (case cltInvoices i of
        Inl err \<Rightarrow> (Returned err, [StreamRecv])
      | Inr invoice \<Rightarrow>
          (case chan_send ch of
             None \<Rightarrow> (Blocked, [StreamRecv])
           | Some ch' \<Rightarrow>
               (let rest = recv_loop fuel w cltInvoices (Suc i) ch' in
                (fst rest,
                 StreamRecv # ChanSend (lookupInvoiceProtoToInvoice w invoice) # snd rest))))"

text \<open>\<open>Backend.SubscribeInvoice\<close>, lnd.go lines 42 to 61.\<close>

definition SubscribeInvoice :: "nat \<Rightarrow> ('w, 'm) world \<Rightarrow> Backend \<Rightarrow> chan \<Rightarrow> status \<times> event list" where
  "SubscribeInvoice fuel w l channelInvoice =
     (case Backend_Client w l of
        (Inl err, t1) \<Rightarrow> (Returned err, t1)
      | (Inr clt, t1) \<Rightarrow>
          (let req = ();
               t2 = t1 @ [Rpc (Req_SubscribeInvoices req)] in
           case SubscribeInvoices (LightningClient clt) req of
             Inl err \<Rightarrow> (Returned err, t2)
           | Inr cltInvoices \<Rightarrow>
               (let run = recv_loop fuel w cltInvoices 0 channelInvoice in
                (fst run, t2 @ snd run))))"

text \<open>
  Whether the channel lets \<open>n\<close> more sends complete.
\<close>

fun has_room :: "nat \<Rightarrow> chan \<Rightarrow> bool" where
  "has_room n None = True"
| "has_room n (Some k) = (n \<le> k)"

subsection \<open>Example collaborators\<close>

text \<open>
  A pool that leases a connection and a pool that is exhausted; a node that answers
  every call and a node that fails every call; translators over small stand-ins for the
  messages and models that lnd.go does not read.
\<close>

definition conn0 :: Conn where
  "conn0 = \<lparr> Target = ''localhost:10009'' \<rparr>"

definition backend_ok :: Backend where
  "backend_ok = \<lparr> cfg = \<lparr> ID = ''node'' \<rparr>, pool = \<lparr> Get = Inr conn0 \<rparr> \<rparr>"

definition backend_exhausted :: Backend where
  "backend_exhausted =
     \<lparr> cfg = \<lparr> ID = ''node'' \<rparr>, pool = \<lparr> Get = Inl (Failure ''pool exhausted'') \<rparr> \<rparr>"

definition invoice1 :: lnrpc_Invoice where
  "invoice1 = \<lparr> Value = 100, Memo = ''first'', CreationDate = 1546300800, Expiry = 3600 \<rparr>"

definition invoice2 :: lnrpc_Invoice where
  "invoice2 = \<lparr> Value = 200, Memo = ''second'', CreationDate = 1546300860, Expiry = 3600 \<rparr>"

definition stream_two_then_EOF :: SubscribeInvoicesClient where
  "stream_two_then_EOF i =
     (if i = 0 then Inr invoice1 else if i = 1 then Inr invoice2 else Inl (Failure ''EOF''))"

definition stub_up :: "nat LightningClient" where
  "stub_up =
     \<lparr> WalletBalance = (\<lambda>req. Inr 1),
       ChannelBalance = (\<lambda>req. Inr 2),
       ListChannels_rpc = (\<lambda>req. Inr 3),
       AddInvoice = (\<lambda>req. Inr \<lparr> resp_RHash = ''6f2a'', resp_PaymentRequest = ''lnbc500u1'',
                                   resp_AddIndex = 7 \<rparr>),
       LookupInvoice = (\<lambda>req. Inr invoice1),
       SendPaymentSync = (\<lambda>req. Inr \<lparr> resp_PaymentError = [], resp_PaymentPreimage = ''9c41'' \<rparr>),
       DecodePayReq_rpc = (\<lambda>req. Inr 4),
       SubscribeInvoices = (\<lambda>req. Inr stream_two_then_EOF) \<rparr>"

definition stub_down :: "nat LightningClient" where
  "stub_down =
     \<lparr> WalletBalance = (\<lambda>req. Inl (Failure ''unavailable'')),
       ChannelBalance = (\<lambda>req. Inl (Failure ''unavailable'')),
       ListChannels_rpc = (\<lambda>req. Inl (Failure ''unavailable'')),
       AddInvoice = (\<lambda>req. Inl (Failure ''unavailable'')),
       LookupInvoice = (\<lambda>req. Inl (Failure ''unavailable'')),
       SendPaymentSync = (\<lambda>req. Inl (Failure ''unavailable'')),
       DecodePayReq_rpc = (\<lambda>req. Inl (Failure ''unavailable'')),
       SubscribeInvoices = (\<lambda>req. Inl (Failure ''unavailable'')) \<rparr>"

definition copy_invoice :: "lnrpc_Invoice \<Rightarrow> Invoice" where
  "copy_invoice resp =
     \<lparr> Invoice_Index = 0, Invoice_Amount = Value resp, Invoice_Description = Memo resp,
       Invoice_RHash = [], Invoice_PaymentRequest = [],
       Invoice_CreationDate = CreationDate resp, Invoice_Expiry = Expiry resp \<rparr>"

definition world_of :: "nat LightningClient \<Rightarrow> (nat, nat) world" where
  "world_of stub =
     \<lparr> NewLightningClient = (\<lambda>c. stub),
       Now_Unix = 1546300800,
       protoToWalletBalance = (\<lambda>resp. resp),
       protoToChannelBalance = (\<lambda>resp. resp),
       listChannelsProtoToChannels = (\<lambda>resp. [resp]),
       lookupInvoiceProtoToInvoice = copy_invoice,
       payreqProtoToPayReq = (\<lambda>resp payreq.
          \<lparr> Destination = ''02ab'', Amount = 100, String' = payreq \<rparr>) \<rparr>"

definition payreq0 :: PayReq where
  "payreq0 = \<lparr> Destination = ''02ab'', Amount = 100, String' = ''lnbc1u1'' \<rparr>"

section \<open>Properties\<close>

subsection \<open>Effects of a concatenation\<close>

lemma gets_append [simp]: "gets (s @ t) = gets s + gets t"
  by (induction s rule: gets.induct) simp_all

lemma closes_append [simp]: "closes (s @ t) = closes s @ closes t"
  by (induction s rule: closes.induct) simp_all

lemma rpcs_append [simp]: "rpcs (s @ t) = rpcs s @ rpcs t"
  by (induction s rule: rpcs.induct) simp_all

lemma sends_append [simp]: "sends (s @ t) = sends s @ sends t"
  by (induction s rule: sends.induct) simp_all

subsection \<open>Acquisition\<close>

lemma Backend_Client_Inl:
  "Get (pool l) = Inl err \<Longrightarrow> Backend_Client w l = (Inl err, [PoolGet])"
  by (simp add: Backend_Client_def)

lemma Backend_Client_Inr:
  "Get (pool l) = Inr c \<Longrightarrow>
   Backend_Client w l =
     (Inr \<lparr> LightningClient = NewLightningClient w c, conn = c \<rparr>,
      [PoolGet, Log Debug ''Client connection retrieved''])"
  by (simp add: Backend_Client_def)

lemmas unary_defs =
  GetWalletBalance_def GetChannelBalance_def ListChannels_def CreateInvoice_def
  GetInvoice_def SendPayment_def DecodePayReq_def

lemmas example_defs =
  conn0_def backend_ok_def backend_exhausted_def stub_up_def stub_down_def world_of_def
  payreq0_def

subsection \<open>Release discipline of the unary operations\<close>

text \<open>
  C1. Whenever the pool leases a connection \<open>c\<close>, each of the seven unary operations
  closes \<open>c\<close> exactly once, whatever the node answers (success or error): the list of the
  connections closed during the call is \<open>[c]\<close>, and the close is the last effect before
  the operation returns.
\<close>

theorem release_exactly_once:
  assumes "Get (pool l) = Inr c"
  shows "(closes (snd (GetWalletBalance w l)) = [c]
            \<and> last (snd (GetWalletBalance w l)) = ConnClose c)
       \<and> (closes (snd (GetChannelBalance w l)) = [c]
            \<and> last (snd (GetChannelBalance w l)) = ConnClose c)
       \<and> (closes (snd (ListChannels w l opt)) = [c]
            \<and> last (snd (ListChannels w l opt)) = ConnClose c)
       \<and> (closes (snd (CreateInvoice w l amount desc)) = [c]
            \<and> last (snd (CreateInvoice w l amount desc)) = ConnClose c)
       \<and> (closes (snd (GetInvoice w l RHash)) = [c]
            \<and> last (snd (GetInvoice w l RHash)) = ConnClose c)
       \<and> (closes (snd (SendPayment w l (Some p))) = [c]
            \<and> last (snd (SendPayment w l (Some p))) = ConnClose c)
       \<and> (closes (snd (DecodePayReq w l payreq)) = [c]
            \<and> last (snd (DecodePayReq w l payreq)) = ConnClose c)"
  using assms
  by (simp add: unary_defs Backend_Client_Inr defer_Close_def Close_def Let_def split: sum.split)

text \<open>
  The theorem at the example pool, on the success path (the node answers) and on the
  remote-error path (the node fails the call).
\<close>

theorem release_exactly_once_witness:
  "Get (pool backend_ok) = Inr conn0
   \<and> fst (GetWalletBalance (world_of stub_up) backend_ok) = Inr 1
   \<and> closes (snd (GetWalletBalance (world_of stub_up) backend_ok)) = [conn0]
   \<and> fst (GetInvoice (world_of stub_down) backend_ok ''6f2a'')
       = Inl (WithStack ''Backend.GetInvoice'' (Failure ''unavailable''))
   \<and> closes (snd (GetInvoice (world_of stub_down) backend_ok ''6f2a'')) = [conn0]
   \<and> closes (snd (SendPayment (world_of stub_up) backend_ok (Some payreq0))) = [conn0]"
proof -
  have h: "Get (pool backend_ok) = Inr conn0"
    by (simp add: backend_ok_def)
  have up: "fst (GetWalletBalance (world_of stub_up) backend_ok) = Inr 1"
    by (simp add: GetWalletBalance_def Backend_Client_Inr [OF h] defer_Close_def Let_def
        world_of_def stub_up_def)
  have down: "fst (GetInvoice (world_of stub_down) backend_ok ''6f2a'')
       = Inl (WithStack ''Backend.GetInvoice'' (Failure ''unavailable''))"
    by (simp add: GetInvoice_def Backend_Client_Inr [OF h] defer_Close_def Let_def
        world_of_def stub_down_def)
  show ?thesis
    using h up down
      release_exactly_once [OF h, where w = "world_of stub_up" and p = payreq0]
      release_exactly_once [OF h, where w = "world_of stub_down" and RHash = "''6f2a''"]
    by simp
qed

text \<open>
  C2. When the pool's \<open>Get\<close> fails with \<open>err\<close>, each unary operation returns \<open>err\<close>,
  makes no call through the stub and closes nothing.
\<close>

theorem acquisition_failure_no_call_no_release:
  assumes "Get (pool l) = Inl err"
  shows "(fst (GetWalletBalance w l) = Inl err
            \<and> rpcs (snd (GetWalletBalance w l)) = [] \<and> closes (snd (GetWalletBalance w l)) = [])
       \<and> (fst (GetChannelBalance w l) = Inl err
            \<and> rpcs (snd (GetChannelBalance w l)) = [] \<and> closes (snd (GetChannelBalance w l)) = [])
       \<and> (fst (ListChannels w l opt) = Inl err
            \<and> rpcs (snd (ListChannels w l opt)) = [] \<and> closes (snd (ListChannels w l opt)) = [])
       \<and> (fst (CreateInvoice w l amount desc) = Inl err
            \<and> rpcs (snd (CreateInvoice w l amount desc)) = []
            \<and> closes (snd (CreateInvoice w l amount desc)) = [])
       \<and> (fst (GetInvoice w l RHash) = Inl err
            \<and> rpcs (snd (GetInvoice w l RHash)) = [] \<and> closes (snd (GetInvoice w l RHash)) = [])
       \<and> (fst (SendPayment w l (Some p)) = Returns (Inl err)
            \<and> rpcs (snd (SendPayment w l (Some p))) = []
            \<and> closes (snd (SendPayment w l (Some p))) = [])
       \<and> (fst (DecodePayReq w l payreq) = Inl err
            \<and> rpcs (snd (DecodePayReq w l payreq)) = []
            \<and> closes (snd (DecodePayReq w l payreq)) = [])"
  using assms
  by (simp add: unary_defs Backend_Client_Inl)

theorem acquisition_failure_no_call_no_release_witness:
  "Get (pool backend_exhausted) = Inl (Failure ''pool exhausted'')
   \<and> fst (CreateInvoice (world_of stub_up) backend_exhausted 50000 ''coffee'')
       = Inl (Failure ''pool exhausted'')
   \<and> rpcs (snd (CreateInvoice (world_of stub_up) backend_exhausted 50000 ''coffee'')) = []
   \<and> closes (snd (CreateInvoice (world_of stub_up) backend_exhausted 50000 ''coffee'')) = []"
proof -
  have h: "Get (pool backend_exhausted) = Inl (Failure ''pool exhausted'')"
    by (simp add: backend_exhausted_def)
  show ?thesis
    using h
      acquisition_failure_no_call_no_release [OF h, where w = "world_of stub_up"
        and amount = 50000 and desc = "''coffee''"]
    by simp
qed

subsection \<open>Requests and results\<close>

text \<open>
  C3. When the pool leases a connection, \<open>CreateInvoice amount desc\<close> makes exactly one
  call through the stub, \<open>AddInvoice\<close> with the request whose value is \<open>amount\<close>, memo
  \<open>desc\<close>, creation date the current time and expiry 3600; and when the node answers
  with any response \<open>resp\<close>, the invoice returned has amount \<open>amount\<close>, description
  \<open>desc\<close> and expiry 3600.
\<close>

theorem CreateInvoice_request_and_result:
  assumes "Get (pool l) = Inr c"
  shows "rpcs (snd (CreateInvoice w l amount desc))
           = [Req_AddInvoice \<lparr> Value = amount, Memo = desc, CreationDate = Now_Unix w,
                                Expiry = 3600 \<rparr>]
       \<and> (AddInvoice (NewLightningClient w c)
             \<lparr> Value = amount, Memo = desc, CreationDate = Now_Unix w, Expiry = 3600 \<rparr> = Inr resp
          \<longrightarrow> (\<exists>invoice. fst (CreateInvoice w l amount desc) = Inr invoice
                 \<and> Invoice_Amount invoice = amount
                 \<and> Invoice_Description invoice = desc
                 \<and> Invoice_Expiry invoice = 3600))"
  using assms
  by (simp add: CreateInvoice_def Backend_Client_Inr defer_Close_def Close_def Let_def
      lndDefaultInvoiceExpiry_def addInvoiceProtoToInvoice_def split: sum.split)

text \<open>The example of the claim: \<open>CreateInvoice(50000, "coffee")\<close>.\<close>

theorem CreateInvoice_request_and_result_witness:
  "Get (pool backend_ok) = Inr conn0
   \<and> AddInvoice (NewLightningClient (world_of stub_up) conn0)
        \<lparr> Value = 50000, Memo = ''coffee'', CreationDate = Now_Unix (world_of stub_up),
          Expiry = 3600 \<rparr>
       = Inr \<lparr> resp_RHash = ''6f2a'', resp_PaymentRequest = ''lnbc500u1'', resp_AddIndex = 7 \<rparr>
   \<and> rpcs (snd (CreateInvoice (world_of stub_up) backend_ok 50000 ''coffee''))
       = [Req_AddInvoice \<lparr> Value = 50000, Memo = ''coffee'', CreationDate = 1546300800,
                            Expiry = 3600 \<rparr>]
   \<and> (\<exists>invoice. fst (CreateInvoice (world_of stub_up) backend_ok 50000 ''coffee'') = Inr invoice
         \<and> Invoice_Amount invoice = 50000
         \<and> Invoice_Description invoice = ''coffee''
         \<and> Invoice_Expiry invoice = 3600)"
proof -
  have h: "Get (pool backend_ok) = Inr conn0"
    by (simp add: backend_ok_def)
  have a: "AddInvoice (NewLightningClient (world_of stub_up) conn0)
        \<lparr> Value = 50000, Memo = ''coffee'', CreationDate = Now_Unix (world_of stub_up),
          Expiry = 3600 \<rparr>
       = Inr \<lparr> resp_RHash = ''6f2a'', resp_PaymentRequest = ''lnbc500u1'', resp_AddIndex = 7 \<rparr>"
    by (simp add: world_of_def stub_up_def)
  have n: "Now_Unix (world_of stub_up) = 1546300800"
    by (simp add: world_of_def)
  show ?thesis
    using h a n
      CreateInvoice_request_and_result [OF h, where w = "world_of stub_up" and amount = 50000
        and desc = "''coffee''"
        and resp = "\<lparr> resp_RHash = ''6f2a'', resp_PaymentRequest = ''lnbc500u1'',
                       resp_AddIndex = 7 \<rparr>"]
    by simp
qed

text \<open>
  C4. When the pool leases a connection, \<open>SendPayment\<close> on a payment request \<open>p\<close> makes
  exactly one call through the stub, \<open>SendPaymentSync\<close> with the request that holds the
  encoded string of \<open>p\<close> and nothing else; and when the node answers with any response,
  the payment returned has the destination and the amount of \<open>p\<close>.
\<close>

theorem SendPayment_request_and_result:
  assumes "Get (pool l) = Inr c"
  shows "rpcs (snd (SendPayment w l (Some p)))
           = [Req_SendPaymentSync \<lparr> PaymentRequest = String' p \<rparr>]
       \<and> (SendPaymentSync (NewLightningClient w c) \<lparr> PaymentRequest = String' p \<rparr> = Inr resp
          \<longrightarrow> (\<exists>payment. fst (SendPayment w l (Some p)) = Returns (Inr payment)
                 \<and> Destination (Payment_PayReq payment) = Destination p
                 \<and> Amount (Payment_PayReq payment) = Amount p))"
  using assms
  by (simp add: SendPayment_def Backend_Client_Inr defer_Close_def Close_def Let_def
      sendPaymentProtoToPayment_def split: sum.split)

theorem SendPayment_request_and_result_witness:
  "Get (pool backend_ok) = Inr conn0
   \<and> SendPaymentSync (NewLightningClient (world_of stub_up) conn0)
        \<lparr> PaymentRequest = String' payreq0 \<rparr>
       = Inr \<lparr> resp_PaymentError = [], resp_PaymentPreimage = ''9c41'' \<rparr>
   \<and> rpcs (snd (SendPayment (world_of stub_up) backend_ok (Some payreq0)))
       = [Req_SendPaymentSync \<lparr> PaymentRequest = ''lnbc1u1'' \<rparr>]
   \<and> (\<exists>payment. fst (SendPayment (world_of stub_up) backend_ok (Some payreq0))
                    = Returns (Inr payment)
         \<and> Destination (Payment_PayReq payment) = ''02ab''
         \<and> Amount (Payment_PayReq payment) = 100)"
proof -
  have h: "Get (pool backend_ok) = Inr conn0"
    by (simp add: backend_ok_def)
  have a: "SendPaymentSync (NewLightningClient (world_of stub_up) conn0)
        \<lparr> PaymentRequest = String' payreq0 \<rparr>
       = Inr \<lparr> resp_PaymentError = [], resp_PaymentPreimage = ''9c41'' \<rparr>"
    by (simp add: world_of_def stub_up_def)
  have p: "String' payreq0 = ''lnbc1u1'' \<and> Destination payreq0 = ''02ab'' \<and> Amount payreq0 = 100"
    by (simp add: payreq0_def)
  show ?thesis
    using h a p
      SendPayment_request_and_result [OF h, where w = "world_of stub_up" and p = payreq0
        and resp = "\<lparr> resp_PaymentError = [], resp_PaymentPreimage = ''9c41'' \<rparr>"]
    by simp
qed

text \<open>
  C6. When the pool leases a connection, \<open>ListChannels\<close> with no option calls the stub
  with the four filter flags false, and \<open>ListChannels\<close> with the active-only option
  alone calls it with the active flag true and the other three false.
\<close>

theorem ListChannels_filter_flags:
  assumes "Get (pool l) = Inr c"
  shows "rpcs (snd (ListChannels w l []))
           = [Req_ListChannels \<lparr> ActiveOnly = False, InactiveOnly = False,
                                  PublicOnly = False, PrivateOnly = False \<rparr>]
       \<and> rpcs (snd (ListChannels w l [active_only]))
           = [Req_ListChannels \<lparr> ActiveOnly = True, InactiveOnly = False,
                                  PublicOnly = False, PrivateOnly = False \<rparr>]"
  using assms
  by (simp add: ListChannels_def Backend_Client_Inr defer_Close_def Close_def Let_def
      NewChannelOptions_def active_only_def split: sum.split)

theorem ListChannels_filter_flags_witness:
  "Get (pool backend_ok) = Inr conn0
   \<and> rpcs (snd (ListChannels (world_of stub_up) backend_ok []))
       = [Req_ListChannels \<lparr> ActiveOnly = False, InactiveOnly = False,
                              PublicOnly = False, PrivateOnly = False \<rparr>]
   \<and> rpcs (snd (ListChannels (world_of stub_up) backend_ok [active_only]))
       = [Req_ListChannels \<lparr> ActiveOnly = True, InactiveOnly = False,
                              PublicOnly = False, PrivateOnly = False \<rparr>]"
proof -
  have h: "Get (pool backend_ok) = Inr conn0"
    by (simp add: backend_ok_def)
  show ?thesis
    using h ListChannels_filter_flags [OF h, where w = "world_of stub_up"]
    by simp
qed

subsection \<open>Errors returned\<close>

text \<open>
  C7, as the code has it. When the pool leases a connection and the remote call fails
  with \<open>err\<close>, each unary operation returns \<open>errors.WithStack(err)\<close>: \<open>err\<close> under the
  stack recorded in the operation's method. The wrapper keeps the cause and the message
  of \<open>err\<close>; it has no message of its own and holds none of the operation's arguments.
\<close>

theorem remote_error_wrapped_with_stack:
  assumes "Get (pool l) = Inr c"
  shows "(WalletBalance (NewLightningClient w c) () = Inl err
          \<longrightarrow> fst (GetWalletBalance w l) = Inl (WithStack ''Backend.GetWalletBalance'' err))
       \<and> (ChannelBalance (NewLightningClient w c) () = Inl err
          \<longrightarrow> fst (GetChannelBalance w l) = Inl (WithStack ''Backend.GetChannelBalance'' err))
       \<and> (ListChannels_rpc (NewLightningClient w c)
             \<lparr> ActiveOnly = Active (NewChannelOptions opt),
               InactiveOnly = Inactive (NewChannelOptions opt),
               PublicOnly = Public (NewChannelOptions opt),
               PrivateOnly = Private (NewChannelOptions opt) \<rparr> = Inl err
          \<longrightarrow> fst (ListChannels w l opt) = Inl (WithStack ''Backend.ListChannels'' err))
       \<and> (AddInvoice (NewLightningClient w c)
             \<lparr> Value = amount, Memo = desc, CreationDate = Now_Unix w, Expiry = 3600 \<rparr> = Inl err
          \<longrightarrow> fst (CreateInvoice w l amount desc) = Inl (WithStack ''Backend.CreateInvoice'' err))
       \<and> (LookupInvoice (NewLightningClient w c) \<lparr> RHashStr = RHash \<rparr> = Inl err
          \<longrightarrow> fst (GetInvoice w l RHash) = Inl (WithStack ''Backend.GetInvoice'' err))
       \<and> (SendPaymentSync (NewLightningClient w c) \<lparr> PaymentRequest = String' p \<rparr> = Inl err
          \<longrightarrow> fst (SendPayment w l (Some p))
                = Returns (Inl (WithStack ''Backend.SendPayment'' err)))
       \<and> (DecodePayReq_rpc (NewLightningClient w c) \<lparr> PayReq = payreq \<rparr> = Inl err
          \<longrightarrow> fst (DecodePayReq w l payreq) = Inl (WithStack ''Backend.DecodePayReq'' err))
       \<and> Cause (WithStack site err) = Cause err
       \<and> Error (WithStack site err) = Error err"
  using assms
  by (simp add: unary_defs Backend_Client_Inr defer_Close_def Close_def Let_def
      lndDefaultInvoiceExpiry_def)

theorem remote_error_wrapped_with_stack_witness:
  "Get (pool backend_ok) = Inr conn0
   \<and> LookupInvoice (NewLightningClient (world_of stub_down) conn0) \<lparr> RHashStr = ''6f2a'' \<rparr>
       = Inl (Failure ''unavailable'')
   \<and> fst (GetInvoice (world_of stub_down) backend_ok ''6f2a'')
       = Inl (WithStack ''Backend.GetInvoice'' (Failure ''unavailable''))
   \<and> Cause (WithStack ''Backend.GetInvoice'' (Failure ''unavailable'')) = Failure ''unavailable''
   \<and> Error (WithStack ''Backend.GetInvoice'' (Failure ''unavailable'')) = ''unavailable''"
proof -
  have h: "Get (pool backend_ok) = Inr conn0"
    by (simp add: backend_ok_def)
  have a: "LookupInvoice (NewLightningClient (world_of stub_down) conn0) \<lparr> RHashStr = ''6f2a'' \<rparr>
       = Inl (Failure ''unavailable'')"
    by (simp add: world_of_def stub_down_def)
  show ?thesis
    using h a
      remote_error_wrapped_with_stack [OF h, where w = "world_of stub_down"
        and RHash = "''6f2a''" and err = "Failure ''unavailable''"
        and site = "''Backend.GetInvoice''"]
    by simp
qed

text \<open>
  C7, as the claim states it, fails: the error that \<open>GetInvoice\<close> returns when the
  remote call fails is the same value for the hash \<open>aa\<close> and for the hash \<open>bb\<close>, so it
  does not carry the key argument, and its message is the bare message of the cause.
\<close>

theorem remote_error_carries_no_arguments:
  "fst (GetInvoice (world_of stub_down) backend_ok ''aa'')
     = fst (GetInvoice (world_of stub_down) backend_ok ''bb'')
   \<and> fst (GetInvoice (world_of stub_down) backend_ok ''aa'')
       = Inl (WithStack ''Backend.GetInvoice'' (Failure ''unavailable''))
   \<and> Error (WithStack ''Backend.GetInvoice'' (Failure ''unavailable'')) = ''unavailable''"
  by (simp add: GetInvoice_def Backend_Client_def defer_Close_def Let_def example_defs)

text \<open>
  C8. When the pool's \<open>Get\<close> fails with \<open>err\<close>, \<open>Backend.Client\<close> and every operation,
  the subscription included, return \<open>err\<close> itself, after a single call of \<open>Get\<close>.
\<close>

theorem pool_error_unchanged:
  assumes "Get (pool l) = Inl err"
  shows "(fst (Backend_Client w l) = Inl err \<and> gets (snd (Backend_Client w l)) = 1)
       \<and> (fst (GetWalletBalance w l) = Inl err \<and> gets (snd (GetWalletBalance w l)) = 1)
       \<and> (fst (GetChannelBalance w l) = Inl err \<and> gets (snd (GetChannelBalance w l)) = 1)
       \<and> (fst (ListChannels w l opt) = Inl err \<and> gets (snd (ListChannels w l opt)) = 1)
       \<and> (fst (CreateInvoice w l amount desc) = Inl err
            \<and> gets (snd (CreateInvoice w l amount desc)) = 1)
       \<and> (fst (GetInvoice w l RHash) = Inl err \<and> gets (snd (GetInvoice w l RHash)) = 1)
       \<and> (fst (SendPayment w l (Some p)) = Returns (Inl err)
            \<and> gets (snd (SendPayment w l (Some p))) = 1)
       \<and> (fst (DecodePayReq w l payreq) = Inl err \<and> gets (snd (DecodePayReq w l payreq)) = 1)
       \<and> (fst (SubscribeInvoice fuel w l ch) = Returned err
            \<and> gets (snd (SubscribeInvoice fuel w l ch)) = 1)"
  using assms
  by (simp add: unary_defs SubscribeInvoice_def Backend_Client_Inl)

theorem pool_error_unchanged_witness:
  "Get (pool backend_exhausted) = Inl (Failure ''pool exhausted'')
   \<and> fst (GetChannelBalance (world_of stub_up) backend_exhausted) = Inl (Failure ''pool exhausted'')
   \<and> gets (snd (GetChannelBalance (world_of stub_up) backend_exhausted)) = 1
   \<and> fst (SubscribeInvoice 5 (world_of stub_up) backend_exhausted None)
       = Returned (Failure ''pool exhausted'')"
proof -
  have h: "Get (pool backend_exhausted) = Inl (Failure ''pool exhausted'')"
    by (simp add: backend_exhausted_def)
  show ?thesis
    using h pool_error_unchanged [OF h, where w = "world_of stub_up" and fuel = 5 and ch = None]
    by simp
qed

subsection \<open>The invoice subscription\<close>

lemma recv_loop_closes: "closes (snd (recv_loop fuel w cltInvoices i ch)) = []"
  by (induction fuel arbitrary: i ch) (simp_all add: Let_def split: sum.split option.split)

lemma recv_loop_two_then_error:
  assumes "cltInvoices i = Inr M1"
    and "cltInvoices (Suc i) = Inr M2"
    and "cltInvoices (Suc (Suc i)) = Inl E"
    and "has_room 2 ch"
  shows "recv_loop (Suc (Suc (Suc fuel))) w cltInvoices i ch
           = (Returned E,
              [StreamRecv, ChanSend (lookupInvoiceProtoToInvoice w M1),
               StreamRecv, ChanSend (lookupInvoiceProtoToInvoice w M2),
               StreamRecv])"
proof (cases ch)
  case None
  with assms show ?thesis by simp
next
  case (Some k)
  with assms(4) obtain m where "k = Suc (Suc m)"
    by (cases k) (simp, rename_tac k', case_tac k', simp_all)
  with Some assms show ?thesis by simp
qed

text \<open>
  The send is a blocking one: on a channel that takes nothing, the run stops in the
  first send, with the message received and not delivered, and never returns.
\<close>

lemma SubscribeInvoice_blocks_on_full_channel:
  assumes "Get (pool l) = Inr c"
    and "SubscribeInvoices (NewLightningClient w c) () = Inr cltInvoices"
    and "cltInvoices 0 = Inr M1"
  shows "SubscribeInvoice (Suc fuel) w l (Some 0)
           = (Blocked,
              [PoolGet, Log Debug ''Client connection retrieved'',
               Rpc (Req_SubscribeInvoices ()), StreamRecv])"
  using assms(2,3)
  by (simp add: SubscribeInvoice_def Backend_Client_Inr [OF assms(1)] Let_def)

text \<open>
  C5. The pool leases a connection, the stream opens, and its \<open>Recv\<close> answers \<open>M1\<close>,
  \<open>M2\<close> and then the error \<open>E\<close>. For \<open>Recv\<close> to be asked a second and a third time the
  two sends must complete, so the channel has room for two. Then, observed for three
  iterations or more, the operation has returned \<open>E\<close> itself, and its effects are, in
  order: one \<open>Get\<close>, one \<open>SubscribeInvoices\<close> call, the receive and the send of the
  translation of \<open>M1\<close>, the receive and the send of the translation of \<open>M2\<close>, and the
  failed receive. Nothing follows the failed receive: no second \<open>Get\<close> and no second
  call.
\<close>

theorem SubscribeInvoice_delivers_then_returns_error:
  assumes "Get (pool l) = Inr c"
    and "SubscribeInvoices (NewLightningClient w c) () = Inr cltInvoices"
    and "cltInvoices 0 = Inr M1"
    and "cltInvoices 1 = Inr M2"
    and "cltInvoices 2 = Inl E"
    and "has_room 2 ch"
    and "3 \<le> fuel"
  shows "SubscribeInvoice fuel w l ch
           = (Returned E,
              [PoolGet, Log Debug ''Client connection retrieved'',
               Rpc (Req_SubscribeInvoices ()),
               StreamRecv, ChanSend (lookupInvoiceProtoToInvoice w M1),
               StreamRecv, ChanSend (lookupInvoiceProtoToInvoice w M2),
               StreamRecv])"
proof -
  from assms(7) obtain k where fuel: "fuel = Suc (Suc (Suc k))"
    by (metis add_Suc_shift le_Suc_ex numeral_3_eq_3 plus_nat.add_0)
  have loop: "recv_loop fuel w cltInvoices 0 ch
           = (Returned E,
              [StreamRecv, ChanSend (lookupInvoiceProtoToInvoice w M1),
               StreamRecv, ChanSend (lookupInvoiceProtoToInvoice w M2),
               StreamRecv])"
    unfolding fuel using assms(3-6)
    by (intro recv_loop_two_then_error) (simp_all add: numeral_2_eq_2)
  show ?thesis
    using assms(2) loop
    by (simp add: SubscribeInvoice_def Backend_Client_Inr [OF assms(1)] Let_def)
qed

theorem SubscribeInvoice_delivers_then_returns_error_witness:
  "Get (pool backend_ok) = Inr conn0
   \<and> SubscribeInvoices (NewLightningClient (world_of stub_up) conn0) () = Inr stream_two_then_EOF
   \<and> stream_two_then_EOF 0 = Inr invoice1
   \<and> stream_two_then_EOF 1 = Inr invoice2
   \<and> stream_two_then_EOF 2 = Inl (Failure ''EOF'')
   \<and> has_room 2 (Some 2)
   \<and> (3::nat) \<le> 4
   \<and> SubscribeInvoice 4 (world_of stub_up) backend_ok (Some 2)
       = (Returned (Failure ''EOF''),
          [PoolGet, Log Debug ''Client connection retrieved'',
           Rpc (Req_SubscribeInvoices ()),
           StreamRecv, ChanSend (copy_invoice invoice1),
           StreamRecv, ChanSend (copy_invoice invoice2),
           StreamRecv])"
proof -
  have h: "Get (pool backend_ok) = Inr conn0"
    by (simp add: backend_ok_def)
  have o: "SubscribeInvoices (NewLightningClient (world_of stub_up) conn0) ()
             = Inr stream_two_then_EOF"
    by (simp add: world_of_def stub_up_def)
  have s0: "stream_two_then_EOF 0 = Inr invoice1"
    and s1: "stream_two_then_EOF 1 = Inr invoice2"
    and s2: "stream_two_then_EOF 2 = Inl (Failure ''EOF'')"
    by (simp_all add: stream_two_then_EOF_def)
  have r: "has_room 2 (Some 2)" by simp
  have f: "(3::nat) \<le> 4" by simp
  have t: "lookupInvoiceProtoToInvoice (world_of stub_up) = copy_invoice"
    by (simp add: world_of_def)
  show ?thesis
    using h o s0 s1 s2 r f t
      SubscribeInvoice_delivers_then_returns_error [OF h o s0 s1 s2 r f]
    by simp
qed

text \<open>
  C9. \<open>SubscribeInvoice\<close> closes no connection: however long the run is observed,
  whatever the pool, the node, the stream and the channel do, the list of connections
  closed is empty.
\<close>

theorem SubscribeInvoice_never_closes:
  "closes (snd (SubscribeInvoice fuel w l ch)) = []"
  by (simp add: SubscribeInvoice_def Backend_Client_def recv_loop_closes Let_def
      split: sum.split)

text \<open>
  C10. When the pool leases a connection and opening the stream fails with \<open>err\<close>,
  \<open>SubscribeInvoice\<close> returns \<open>err\<close> itself, not \<open>err\<close> under a recorded stack, and sends
  nothing on the output channel.
\<close>

theorem SubscribeInvoice_open_failure:
  assumes "Get (pool l) = Inr c"
    and "SubscribeInvoices (NewLightningClient w c) () = Inl err"
  shows "fst (SubscribeInvoice fuel w l ch) = Returned err
       \<and> fst (SubscribeInvoice fuel w l ch) \<noteq> Returned (WithStack site err)
       \<and> sends (snd (SubscribeInvoice fuel w l ch)) = []"
  using assms
  by (simp add: SubscribeInvoice_def Backend_Client_Inr Let_def)

theorem SubscribeInvoice_open_failure_witness:
  "Get (pool backend_ok) = Inr conn0
   \<and> SubscribeInvoices (NewLightningClient (world_of stub_down) conn0) ()
       = Inl (Failure ''unavailable'')
   \<and> fst (SubscribeInvoice 3 (world_of stub_down) backend_ok None)
       = Returned (Failure ''unavailable'')
   \<and> sends (snd (SubscribeInvoice 3 (world_of stub_down) backend_ok None)) = []"
proof -
  have h: "Get (pool backend_ok) = Inr conn0"
    by (simp add: backend_ok_def)
  have o: "SubscribeInvoices (NewLightningClient (world_of stub_down) conn0) ()
             = Inl (Failure ''unavailable'')"
    by (simp add: world_of_def stub_down_def)
  show ?thesis
    using h o SubscribeInvoice_open_failure [OF h o, where fuel = 3 and ch = None]
    by simp
qed

end
